theory Spec2Isabelle
  imports Main
begin

section \<open>The music importer: a shallow embedding of its Go sources\<close>

text \<open>
  Go strings are byte sequences; they are modelled as \<open>string\<close> (a list of 8-bit
  characters). Paths are strings.
\<close>

type_synonym path = string

subsection \<open>Sanitizer\<close>

text \<open>
  \<^verbatim>\<open>strings.NewReplacer(old1, new1, ...).Replace(s)\<close> where every old string is a single
  byte: each byte of the input is replaced on its own; the first pair of the argument list
  whose old byte matches gives the replacement, and a byte with no pair is kept.
\<close>

definition Replace :: "(char \<times> string) list \<Rightarrow> string \<Rightarrow> string" where
  "Replace oldnew s = concat (map (\<lambda>c. case map_of oldnew c of None \<Rightarrow> [c] | Some new \<Rightarrow> new) s)"

text \<open>The pairs of the replacer built in \<open>sanitize\<close>, in argument order
  (\<open>CHR 0x5C\<close> is the backslash, \<open>CHR 0x22\<close> the double quote).\<close>

definition sanitize_oldnew :: "(char \<times> string) list" where
  "sanitize_oldnew =
     [(CHR ''/'', ''_''), (CHR 0x5C, ''_''), (CHR '':'', ''-''), (CHR ''?'', ''''),
      (CHR ''*'', ''''), (CHR 0x22, ''''), (CHR ''<'', ''''), (CHR ''>'', ''''),
      (CHR ''|'', '''')]"

definition sanitize :: "string \<Rightarrow> string" where
  "sanitize s = Replace sanitize_oldnew s"

definition unsafe_chars :: "char set" where
  "unsafe_chars = {CHR ''/'', CHR 0x5C, CHR '':'', CHR ''?'', CHR ''*'', CHR 0x22,
                   CHR ''<'', CHR ''>'', CHR ''|''}"

text \<open>The replacement of one byte, read off the argument list of the replacer.\<close>

definition sanitize_char :: "char \<Rightarrow> string" where
  "sanitize_char c =
     (if c = CHR ''/'' \<or> c = CHR 0x5C then ''_''
      else if c = CHR '':'' then ''-''
      else if c \<in> unsafe_chars then ''''
      else [c])"

section \<open>Properties\<close>

lemma sanitize_char_eq:
  "(case map_of sanitize_oldnew c of None \<Rightarrow> [c] | Some new \<Rightarrow> new) = sanitize_char c"
  by (auto simp add: sanitize_oldnew_def sanitize_char_def unsafe_chars_def)

lemma sanitize_concat: "sanitize s = concat (map sanitize_char s)"
  by (simp add: sanitize_def Replace_def sanitize_char_eq)

lemma sanitize_char_safe: "set (sanitize_char c) \<inter> unsafe_chars = {}"
  by (auto simp add: sanitize_char_def unsafe_chars_def)

lemma sanitize_safe: "set (sanitize s) \<inter> unsafe_chars = {}"
  using sanitize_char_safe by (induction s) (auto simp: sanitize_concat)

lemma sanitize_id: "set s \<inter> unsafe_chars = {} \<Longrightarrow> sanitize s = s"
  by (induction s) (auto simp: sanitize_concat sanitize_char_def unsafe_chars_def)

text \<open>
  Claim C8. The sanitizer is a total function on strings; every occurrence of each of the
  nine characters \<open>/ \ : ? * " < > |\<close> is replaced by its fixed replacement (so the
  result holds none of them, and the result is the concatenation of the per-character
  replacements); and sanitizing twice is the same as sanitizing once.
\<close>

theorem sanitize_total_replaces_idempotent:
  "sanitize s = concat (map sanitize_char s)
   \<and> sanitize (xs @ c # ys) = sanitize xs @ sanitize_char c @ sanitize ys
   \<and> set (sanitize s) \<inter> unsafe_chars = {}
   \<and> sanitize (sanitize s) = sanitize s"
proof -
  have "sanitize (xs @ c # ys) = sanitize xs @ sanitize_char c @ sanitize ys"
    by (simp add: sanitize_concat)
  moreover have "sanitize (sanitize s) = sanitize s"
    by (rule sanitize_id) (rule sanitize_safe)
  ultimately show ?thesis
    by (simp add: sanitize_concat [symmetric] sanitize_safe)
qed

theorem sanitize_total_replaces_idempotent_witness:
  "sanitize ''AC/DC: Who? <a|b>*'' = ''AC_DC- Who ab''
   \<and> set (sanitize ''AC/DC: Who? <a|b>*'') \<inter> unsafe_chars = {}
   \<and> sanitize (sanitize ''AC/DC: Who? <a|b>*'') = sanitize ''AC/DC: Who? <a|b>*''"
proof -
  have "sanitize ''AC/DC: Who? <a|b>*'' = ''AC_DC- Who ab''"
    by (simp add: sanitize_def Replace_def sanitize_oldnew_def)
  then show ?thesis
    using sanitize_total_replaces_idempotent [of "''AC/DC: Who? <a|b>*''"] by blast
qed

end
